theory Spec2Isabelle
  imports Complex_Main "HOL-Library.Multiset"
begin

section \<open>Game of 24 with a tree-of-thoughts beam search\<close>

text \<open>
  The development embeds the two notebooks of the repository,
  \<^verbatim>\<open>Tree-of-thoughts_heu(gpt-4o-mini).ipynb\<close> (the heuristic variant, suffix \<open>_heu\<close>
  where the two differ) and \<^verbatim>\<open>Tree-of-thoughts_CoT(gemini).ipynb\<close> (the
  chain-of-thought variant, suffix \<open>_cot\<close>).

  Conventions of the embedding:
  \<^item> Python floats are real numbers: rounding, overflow to infinity and NaN are not
    modelled. A float division by zero raises, as in Python.
  \<^item> An exception is a value \<open>Inl e\<close> of a sum type, a normal return is \<open>Inr v\<close>.
  \<^item> The language model behind \<^verbatim>\<open>solver.invoke\<close> is a parameter: a function from the
    request to what the call does (raise, return \<^verbatim>\<open>None\<close>, return a submission).
  \<^item> The text Python prints for a float, for an exception and for a quoted string
    (\<^verbatim>\<open>str\<close>, \<^verbatim>\<open>repr\<close>) is a parameter as well (a record of printers).
\<close>

subsection \<open>Tokens and equations\<close>

datatype operator = Add | Sub | Mul | Div

datatype token = Num real | Op operator

datatype py_error =
  IndexError | ZeroDivisionError | ValueError | TypeError | AttributeError | KeyError

record Equation =
  tokens :: "token list"

text \<open>
  \<^verbatim>\<open>op_funcs\<close>: \<^verbatim>\<open>operator.add\<close>, \<^verbatim>\<open>sub\<close>, \<^verbatim>\<open>mul\<close> and \<^verbatim>\<open>truediv\<close>; the last one raises
  \<^verbatim>\<open>ZeroDivisionError\<close> on a zero divisor.
\<close>

fun op_funcs :: "operator \<Rightarrow> real \<Rightarrow> real \<Rightarrow> py_error + real" where
  "op_funcs Add a b = Inr (a + b)"
| "op_funcs Sub a b = Inr (a - b)"
| "op_funcs Mul a b = Inr (a * b)"
| "op_funcs Div a b = (if b = 0 then Inl ZeroDivisionError else Inr (a / b))"

text \<open>
  The loop of \<^verbatim>\<open>Equation.compute\<close>. The stack is a Python list: \<^verbatim>\<open>append\<close> adds at the
  end, \<^verbatim>\<open>pop\<close> removes the last element and raises \<^verbatim>\<open>IndexError\<close> on an empty list.
  In \<^verbatim>\<open>b, a = stack.pop(), stack.pop()\<close> the first pop gives \<open>b\<close>.
\<close>

fun compute_loop :: "token list \<Rightarrow> real list \<Rightarrow> py_error + real list" where
  "compute_loop [] stack = Inr stack"
| "compute_loop (Num x # ts) stack = compute_loop ts (stack @ [x])"
| "compute_loop (Op f # ts) stack =
     (if length stack < 2 then Inl IndexError
      else
        let b = last stack;
            a = last (butlast stack)
        in case op_funcs f a b of
             Inl e \<Rightarrow> Inl e
           | Inr v \<Rightarrow> compute_loop ts (butlast (butlast stack) @ [v]))"

text \<open>\<^verbatim>\<open>return stack[0]\<close>: the bottom of the stack; \<^verbatim>\<open>IndexError\<close> when the stack is empty.\<close>

definition compute :: "Equation \<Rightarrow> py_error + real" where
  "compute eq =
     (case compute_loop (tokens eq) [] of
        Inl e \<Rightarrow> Inl e
      | Inr stack \<Rightarrow> (case stack of [] \<Rightarrow> Inl IndexError | v # _ \<Rightarrow> Inr v))"



subsection \<open>Candidates\<close>

record Candidate =
  candidate :: Equation
  score :: "real option"
  feedback :: "string option"

text \<open>A \<^verbatim>\<open>ScoredCandidate\<close> is a \<^verbatim>\<open>Candidate\<close> whose score and feedback are present.\<close>

definition ScoredCandidate :: "Equation \<Rightarrow> real \<Rightarrow> string \<Rightarrow> Candidate" where
  "ScoredCandidate eq s f = \<lparr>candidate = eq, score = Some s, feedback = Some f\<rparr>"

definition new_Candidate :: "Equation \<Rightarrow> Candidate" where
  "new_Candidate eq = \<lparr>candidate = eq, score = None, feedback = None\<rparr>"

record printers =
  str_float :: "real \<Rightarrow> string"
  repr_exc :: "py_error \<Rightarrow> string"
  str_exc :: "py_error \<Rightarrow> string"
  repr_str :: "string \<Rightarrow> string"

subsection \<open>Reading the problem string\<close>

text \<open>
  \<^verbatim>\<open>str.split()\<close> without arguments: the words between runs of white space. The
  strings are ASCII; the white space characters of Python are then the space, the
  characters 9 to 13 and 28 to 31.
\<close>

definition is_space :: "char \<Rightarrow> bool" where
  "is_space c =
     (let n = (of_char c :: nat)
      in n = 32 \<or> (9 \<le> n \<and> n \<le> 13) \<or> (28 \<le> n \<and> n \<le> 31))"

fun split_loop :: "string \<Rightarrow> string \<Rightarrow> string list" where
  "split_loop w [] = (if w = [] then [] else [w])"
| "split_loop w (c # cs) =
     (if is_space c then (if w = [] then split_loop [] cs else w # split_loop [] cs)
      else split_loop (w @ [c]) cs)"

definition split :: "string \<Rightarrow> string list" where
  "split s = split_loop [] s"

text \<open>
  \<^verbatim>\<open>int(word)\<close> on a word without white space: an optional sign, then decimal digits,
  where single underscores may stand between digits; anything else raises
  \<^verbatim>\<open>ValueError\<close>. (The limit Python puts on the number of digits is not modelled.)
\<close>

definition is_digit :: "char \<Rightarrow> bool" where
  "is_digit c = (48 \<le> (of_char c :: nat) \<and> (of_char c :: nat) \<le> 57)"

definition digit_value :: "char \<Rightarrow> int" where
  "digit_value c = int (of_char c) - 48"

fun int_digits :: "int \<Rightarrow> bool \<Rightarrow> string \<Rightarrow> int option" where
  "int_digits acc d [] = (if d then Some acc else None)"
| "int_digits acc d (c # cs) =
     (if is_digit c then int_digits (10 * acc + digit_value c) True cs
      else if c = CHR ''_'' \<and> d then int_digits acc False cs
      else None)"

definition py_int :: "string \<Rightarrow> py_error + int" where
  "py_int s =
     (let (neg, body) =
            (case s of
               [] \<Rightarrow> (False, s)
             | c # cs \<Rightarrow>
                 if c = CHR ''-'' then (True, cs)
                 else if c = CHR ''+'' then (False, cs)
                 else (False, s))
      in case int_digits 0 False body of
           None \<Rightarrow> Inl ValueError
         | Some n \<Rightarrow> Inr (if neg then - n else n))"

fun map_int :: "string list \<Rightarrow> py_error + int list" where
  "map_int [] = Inr []"
| "map_int (w # ws) =
     (case py_int w of
        Inl e \<Rightarrow> Inl e
      | Inr n \<Rightarrow> (case map_int ws of Inl e \<Rightarrow> Inl e | Inr ns \<Rightarrow> Inr (n # ns)))"

text \<open>\<^verbatim>\<open>list(map(int, problem.split()))\<close>\<close>

definition parse_numbers :: "string \<Rightarrow> py_error + int list" where
  "parse_numbers problem = map_int (split problem)"

subsection \<open>The scorer\<close>

text \<open>\<^verbatim>\<open>[token for token in tokens if isinstance(token, float)]\<close>\<close>

fun used_numbers :: "token list \<Rightarrow> real list" where
  "used_numbers [] = []"
| "used_numbers (Num x # ts) = x # used_numbers ts"
| "used_numbers (Op f # ts) = used_numbers ts"

text \<open>
  \<^verbatim>\<open>compute_score\<close>. The problem is parsed before the \<^verbatim>\<open>try\<close>, so a problem string that
  is not a list of integers makes the function raise. Python compares the sorted list of
  floats with the sorted list of integers by value.
\<close>

definition compute_score :: "printers \<Rightarrow> string \<Rightarrow> Candidate \<Rightarrow> py_error + Candidate" where
  "compute_score pr problem c =
     (case parse_numbers problem of
        Inl e \<Rightarrow> Inl e
      | Inr numbers \<Rightarrow>
          if sort (used_numbers (tokens (candidate c))) \<noteq> sort (map real_of_int numbers)
          then Inr (ScoredCandidate (candidate c) 0
                      ''The equation must use all 4 numbers exactly once.'')
          else
            (case compute (candidate c) of
               Inr result \<Rightarrow>
                 Inr (ScoredCandidate (candidate c) (1 / (1 + \<bar>24 - result\<bar>))
                        (''Result: '' @ str_float pr result))
             | Inl e \<Rightarrow>
                 Inr (ScoredCandidate (candidate c) 0
                        (''Invalid equation. Error: '' @ repr_exc pr e))))"

text \<open>
  \<^verbatim>\<open>is_valid_equation\<close> of the heuristic variant: the same comparison, on the tokens of
  an equation and the numbers of the problem.
\<close>

definition is_valid_equation :: "token list \<Rightarrow> int list \<Rightarrow> bool" where
  "is_valid_equation toks numbers =
     (sort (used_numbers toks) = sort (map real_of_int numbers))"

subsection \<open>Search state and its reducers\<close>

text \<open>
  What a node returns for a list channel: the string \<^verbatim>\<open>"clear"\<close> or a list of items.
\<close>

datatype 'a upd = Clear | Items "'a list"

definition update_candidates :: "'a list option \<Rightarrow> 'a upd option \<Rightarrow> 'a list" where
  "update_candidates existing updates =
     (let existing = (case existing of None \<Rightarrow> [] | Some xs \<Rightarrow> xs)
      in case updates of
           None \<Rightarrow> existing
         | Some Clear \<Rightarrow> []
         | Some (Items us) \<Rightarrow> existing @ us)"

record ToTState =
  problem :: string
  candidates :: "Candidate list"
  scored_candidates :: "Candidate list"
  depth :: int

text \<open>
  The dictionary a node returns: a key that is absent is \<open>None\<close>. The graph merges it
  into the state with the reducer each channel is annotated with: \<^verbatim>\<open>update_candidates\<close>
  for the two lists, \<^verbatim>\<open>operator.add\<close> for the depth.
\<close>

record node_update =
  upd_candidates :: "Candidate upd option"
  upd_scored_candidates :: "Candidate upd option"
  upd_depth :: "int option"

definition apply_update :: "ToTState \<Rightarrow> node_update \<Rightarrow> ToTState" where
  "apply_update s u =
     s\<lparr>candidates := update_candidates (Some (candidates s)) (upd_candidates u),
       scored_candidates :=
         update_candidates (Some (scored_candidates s)) (upd_scored_candidates u),
       depth := (case upd_depth u of None \<Rightarrow> depth s | Some d \<Rightarrow> depth s + d)\<rparr>"

subsection \<open>Configuration\<close>

text \<open>
  The \<^verbatim>\<open>configurable\<close> dictionary of a run configuration, with the four keys the
  search reads, and the run configuration itself: its \<^verbatim>\<open>configurable\<close> entry and a
  \<^verbatim>\<open>threshold\<close> entry at the top level, each present or not.
\<close>

record configurable_dict =
  get_max_depth :: "int option"
  get_threshold :: "real option"
  get_k :: "int option"
  get_beam_size :: "int option"

record RunnableConfig =
  get_configurable :: "configurable_dict option"
  get_top_threshold :: "real option"

record Configuration =
  max_depth :: int
  threshold :: real
  k :: int
  beam_size :: int

datatype variant = Heuristic | ChainOfThought

fun default_max_depth :: "variant \<Rightarrow> int" where
  "default_max_depth Heuristic = 10"
| "default_max_depth ChainOfThought = 50"

definition empty_configurable :: configurable_dict where
  "empty_configurable =
     \<lparr>get_max_depth = None, get_threshold = None, get_k = None, get_beam_size = None\<rparr>"

text \<open>
  \<^verbatim>\<open>_ensure_configurable\<close>. Three of the four values are read from
  \<^verbatim>\<open>configurable\<close>; the threshold is read from \<^verbatim>\<open>config\<close> itself:
  \<^verbatim>\<open>"threshold": config.get("threshold", 0.9)\<close>.
\<close>

definition ensure_configurable :: "variant \<Rightarrow> RunnableConfig \<Rightarrow> Configuration" where
  "ensure_configurable v config =
     (let configurable =
            (case get_configurable config of None \<Rightarrow> empty_configurable | Some d \<Rightarrow> d)
      in \<lparr>max_depth =
              (case get_max_depth configurable of None \<Rightarrow> default_max_depth v | Some m \<Rightarrow> m),
           threshold = (case get_top_threshold config of None \<Rightarrow> 9 / 10 | Some t \<Rightarrow> t),
           k = (case get_k configurable of None \<Rightarrow> 5 | Some n \<Rightarrow> n),
           beam_size = (case get_beam_size configurable of None \<Rightarrow> 3 | Some b \<Rightarrow> b)\<rparr>)"

subsection \<open>Score and prune\<close>

fun score_loop :: "printers \<Rightarrow> string \<Rightarrow> Candidate list \<Rightarrow> py_error + Candidate list" where
  "score_loop pr p [] = Inr []"
| "score_loop pr p (c # cs) =
     (case compute_score pr p c of
        Inl e \<Rightarrow> Inl e
      | Inr sc \<Rightarrow> (case score_loop pr p cs of Inl e \<Rightarrow> Inl e | Inr scs \<Rightarrow> Inr (sc # scs)))"

text \<open>The node \<^verbatim>\<open>score\<close>.\<close>

definition score_node :: "printers \<Rightarrow> ToTState \<Rightarrow> py_error + node_update" where
  "score_node pr state =
     (case score_loop pr (problem state) (candidates state) of
        Inl e \<Rightarrow> Inl e
      | Inr scored \<Rightarrow>
          Inr \<lparr>upd_candidates = Some Clear,
               upd_scored_candidates = Some (Items scored),
               upd_depth = None\<rparr>)"

text \<open>
  \<^verbatim>\<open>sorted(scored_candidates, key=lambda candidate: candidate[1], reverse=True)\<close>:
  Python's sort is stable, also with \<^verbatim>\<open>reverse=True\<close>. Comparing a score that is
  \<^verbatim>\<open>None\<close> raises \<^verbatim>\<open>TypeError\<close>; a list of fewer than two elements is not compared.
\<close>

definition score_key :: "Candidate \<Rightarrow> real" where
  "score_key c = (case score c of None \<Rightarrow> 0 | Some s \<Rightarrow> s)"

definition sorted_by_score_reverse :: "Candidate list \<Rightarrow> py_error + Candidate list" where
  "sorted_by_score_reverse cs =
     (if 2 \<le> length cs \<and> list_ex (\<lambda>c. score c = None) cs then Inl TypeError
      else Inr (sort_key (\<lambda>c. - score_key c) cs))"

text \<open>
  The slice \<^verbatim>\<open>xs[:n]\<close>: the first \<open>n\<close> elements, and for a negative \<open>n\<close> all but the
  last \<open>-n\<close>.
\<close>

definition slice_to :: "int \<Rightarrow> 'a list \<Rightarrow> 'a list" where
  "slice_to n xs = (if 0 \<le> n then take (nat n) xs else take (length xs - nat (- n)) xs)"

definition prune :: "variant \<Rightarrow> ToTState \<Rightarrow> RunnableConfig \<Rightarrow> py_error + node_update" where
  "prune v state config =
     (let beam = beam_size (ensure_configurable v config)
      in case sorted_by_score_reverse (scored_candidates state) of
           Inl e \<Rightarrow> Inl e
         | Inr organized \<Rightarrow>
             let pruned = slice_to beam organized
             in Inr \<lparr>upd_candidates = Some (Items pruned),
                     upd_scored_candidates = Some Clear,
                     upd_depth = Some 1\<rparr>)"

subsection \<open>The termination check\<close>

text \<open>
  The dictionary sent to \<^verbatim>\<open>expand\<close>: the state, and the keys added to it
  (\<^verbatim>\<open>{**state, "seed": candidate}\<close>). At the start of a run \<^verbatim>\<open>expand\<close> receives the
  state alone.
\<close>

record ExpansionState =
  base :: ToTState
  extras :: "(string \<times> Candidate) list"

record Send =
  node :: string
  arg :: ExpansionState

datatype route = End | Fanout "Send list"

definition should_terminate_heu :: "ToTState \<Rightarrow> RunnableConfig \<Rightarrow> py_error + route" where
  "should_terminate_heu state config =
     (let configurable = ensure_configurable Heuristic config;
          cs = candidates state
      in case cs of
           [] \<Rightarrow> Inr End
         | c0 # _ \<Rightarrow>
             (case score c0 of
                None \<Rightarrow> Inl TypeError
              | Some s \<Rightarrow>
                  let solved = (s \<ge> threshold configurable)
                  in if solved \<or> depth state \<ge> max_depth configurable then Inr End
                     else Inr (Fanout
                       (map (\<lambda>c. \<lparr>node = ''expand'',
                                   arg = \<lparr>base = state, extras = [(''seed'', c)]\<rparr>\<rparr>) cs))))"

text \<open>
  The chain-of-thought variant reads \<^verbatim>\<open>state["candidates"][0]\<close> without a check and
  sends each candidate under the key \<^verbatim>\<open>"somevalseed"\<close>.
\<close>

definition should_terminate_cot :: "ToTState \<Rightarrow> RunnableConfig \<Rightarrow> py_error + route" where
  "should_terminate_cot state config =
     (let configurable = ensure_configurable ChainOfThought config
      in case candidates state of
           [] \<Rightarrow> Inl IndexError
         | c0 # _ \<Rightarrow>
             (case score c0 of
                None \<Rightarrow> Inl TypeError
              | Some s \<Rightarrow>
                  let solved = (s \<ge> threshold configurable)
                  in if solved \<or> depth state \<ge> max_depth configurable then Inr End
                     else Inr (Fanout
                       (map (\<lambda>c. \<lparr>node = ''expand'',
                                   arg = \<lparr>base = state, extras = [(''somevalseed'', c)]\<rparr>\<rparr>)
                          (candidates state)))))"

subsection \<open>Printing candidates\<close>

text \<open>The \<^verbatim>\<open>repr\<close> of a list: the items separated by a comma and a space, in brackets.\<close>

fun join_comma :: "string list \<Rightarrow> string" where
  "join_comma [] = []"
| "join_comma [x] = x"
| "join_comma (x # y # ys) = x @ '', '' @ join_comma (y # ys)"

definition repr_list :: "string list \<Rightarrow> string" where
  "repr_list items = ''['' @ join_comma items @ '']''"

fun operator_symbol :: "operator \<Rightarrow> string" where
  "operator_symbol Add = ''+''"
| "operator_symbol Sub = ''-''"
| "operator_symbol Mul = ''*''"
| "operator_symbol Div = ''/''"

fun repr_token :: "printers \<Rightarrow> token \<Rightarrow> string" where
  "repr_token pr (Num x) = str_float pr x"
| "repr_token pr (Op f) = [CHR 0x27] @ operator_symbol f @ [CHR 0x27]"

definition repr_tokens :: "printers \<Rightarrow> token list \<Rightarrow> string" where
  "repr_tokens pr toks = repr_list (map (repr_token pr) toks)"

definition str_optional_float :: "printers \<Rightarrow> real option \<Rightarrow> string" where
  "str_optional_float pr x = (case x of None \<Rightarrow> ''None'' | Some v \<Rightarrow> str_float pr v)"

text \<open>\<^verbatim>\<open>Candidate.__str__\<close>\<close>

definition str_Candidate :: "printers \<Rightarrow> Candidate \<Rightarrow> string" where
  "str_Candidate pr c =
     (let computed =
            (case compute (candidate c) of
               Inr v \<Rightarrow> str_float pr v
             | Inl e \<Rightarrow>
                 ''Invalid equation: '' @ repr_tokens pr (tokens (candidate c))
                 @ ''; Error: '' @ repr_exc pr e)
      in ''Equation('' @ repr_tokens pr (tokens (candidate c)) @ '') = '' @ computed
         @ '' (Reward: '' @ str_optional_float pr (score c) @ '')'')"

text \<open>
  The \<^verbatim>\<open>repr\<close> of a candidate, which \<^verbatim>\<open>str\<close> of a list of candidates uses: that of a
  named tuple, with the \<^verbatim>\<open>repr\<close> of the equation model inside.
\<close>

definition repr_Candidate :: "printers \<Rightarrow> Candidate \<Rightarrow> string" where
  "repr_Candidate pr c =
     ''Candidate(candidate=Equation(tokens='' @ repr_tokens pr (tokens (candidate c))
     @ ''), score='' @ str_optional_float pr (score c)
     @ '', feedback='' @ (case feedback c of None \<Rightarrow> ''None'' | Some f \<Rightarrow> repr_str pr f)
     @ '')''"

subsection \<open>Heuristic candidates\<close>

text \<open>
  \<^verbatim>\<open>itertools.permutations\<close>: the permutations in the order of the positions chosen,
  the first position varying slowest.
\<close>

function permutations :: "'a list \<Rightarrow> 'a list list" where
  "permutations xs =
     (if xs = [] then [[]]
      else concat (map (\<lambda>i. map ((#) (xs ! i)) (permutations (take i xs @ drop (Suc i) xs)))
                    [0..<length xs]))"
  by pat_completeness auto
termination
  by (relation "measure length") auto

text \<open>\<^verbatim>\<open>itertools.product(["+", "-", "*", "/"], repeat=3)\<close>\<close>

definition op_combos :: "(operator \<times> operator \<times> operator) list" where
  "op_combos =
     (let ops = [Add, Sub, Mul, Div] in List.product ops (List.product ops ops))"

text \<open>
  One round of the inner loop of \<^verbatim>\<open>generate_heuristic_candidates\<close>, for a permutation
  of at least four numbers: the equation \<open>a b op1 c op2 d op3\<close> when it evaluates
  to a value less than 10 away from 24, nothing when it does not or when the evaluation
  raises. (\<^verbatim>\<open>math.isfinite\<close> holds of every real number.)
\<close>

definition heuristic_equation ::
  "int list \<Rightarrow> operator \<times> operator \<times> operator \<Rightarrow> Equation list" where
  "heuristic_equation nums ops =
     (case ops of (op1, op2, op3) \<Rightarrow>
        let eq = \<lparr>tokens = [Num (real_of_int (nums ! 0)), Num (real_of_int (nums ! 1)), Op op1,
                            Num (real_of_int (nums ! 2)), Op op2,
                            Num (real_of_int (nums ! 3)), Op op3]\<rparr>
        in case compute eq of
             Inr val \<Rightarrow> if \<bar>val - 24\<bar> < 10 then [eq] else []
           | Inl e \<Rightarrow> [])"

text \<open>
  \<^verbatim>\<open>generate_heuristic_candidates\<close>. Building the tokens reads \<^verbatim>\<open>nums[3]\<close> outside the
  \<^verbatim>\<open>try\<close>: with fewer than four numbers the first round raises \<^verbatim>\<open>IndexError\<close>.
\<close>

definition generate_heuristic_candidates :: "int list \<Rightarrow> py_error + Equation list" where
  "generate_heuristic_candidates numbers =
     (if length numbers < 4 then Inl IndexError
      else Inr (take 10
             (concat (map (\<lambda>nums. concat (map (heuristic_equation nums) op_combos))
                        (permutations numbers)))))"

subsection \<open>The expansion step\<close>

record Request =
  req_problem :: string
  req_candidate :: string
  req_k :: int

record GuessEquations =
  reasoning :: string
  equations :: "Equation list"

text \<open>
  What \<^verbatim>\<open>solver.invoke\<close> does: it raises (a schema violation, a timeout, any other
  exception), returns \<^verbatim>\<open>None\<close>, or returns a submission.
\<close>

datatype solver_outcome = Raises | ReturnsNone | Returns GuessEquations

definition get_seed :: "ExpansionState \<Rightarrow> Candidate option" where
  "get_seed state = map_of (extras state) ''seed''"

definition hint_prefix :: string where
  "hint_prefix =
     [CHR 0x0A, CHR 0x0A]
     @ '' the following are promising solution canditates that might help you''"

text \<open>
  The first half of \<^verbatim>\<open>expand\<close> in the heuristic variant, up to the \<^verbatim>\<open>try\<close>: the problem
  numbers, the candidates held so far and the request for the solver.
\<close>

definition expand_request_heu ::
  "printers \<Rightarrow> ExpansionState \<Rightarrow> RunnableConfig \<Rightarrow> py_error + (int list \<times> Candidate list \<times> Request)" where
  "expand_request_heu pr state config =
     (let configurable = ensure_configurable Heuristic config
      in case parse_numbers (problem (base state)) of
           Inl e \<Rightarrow> Inl e
         | Inr problem_numbers \<Rightarrow>
             (case get_seed state of
                Some seed \<Rightarrow>
                  Inr (problem_numbers, [],
                       \<lparr>req_problem = problem (base state),
                        req_candidate = hint_prefix @ str_Candidate pr seed,
                        req_k = k configurable\<rparr>)
              | None \<Rightarrow>
                  (case generate_heuristic_candidates problem_numbers of
                     Inl e \<Rightarrow> Inl e
                   | Inr heuristic_equations \<Rightarrow>
                       let cands = map new_Candidate heuristic_equations
                       in Inr (problem_numbers, cands,
                               \<lparr>req_problem = problem (base state),
                                req_candidate =
                                  hint_prefix @ repr_list (map (repr_Candidate pr) cands),
                                req_k = k configurable\<rparr>))))"

text \<open>
  \<^verbatim>\<open>expand\<close> of the heuristic variant. The call of the solver and the list
  comprehension over its equations are inside the \<^verbatim>\<open>try\<close>; on any exception the
  candidates held so far are returned.
\<close>

definition expand_heu ::
  "printers \<Rightarrow> (Request \<Rightarrow> solver_outcome) \<Rightarrow> ExpansionState \<Rightarrow> RunnableConfig
     \<Rightarrow> py_error + node_update" where
  "expand_heu pr solver state config =
     (case expand_request_heu pr state config of
        Inl e \<Rightarrow> Inl e
      | Inr (problem_numbers, held, request) \<Rightarrow>
          let cands =
                (case solver request of
                   Returns equation_submission \<Rightarrow>
                     map new_Candidate
                       (filter (\<lambda>eq. is_valid_equation (tokens eq) problem_numbers)
                          (equations equation_submission))
                 | ReturnsNone \<Rightarrow> held
                 | Raises \<Rightarrow> held)
          in Inr \<lparr>upd_candidates = Some (Items cands),
                  upd_scored_candidates = None,
                  upd_depth = None\<rparr>)"

definition expand_request_cot ::
  "printers \<Rightarrow> ExpansionState \<Rightarrow> RunnableConfig \<Rightarrow> Request" where
  "expand_request_cot pr state config =
     (let configurable = ensure_configurable ChainOfThought config;
          candidate_str =
            (case get_seed state of
               None \<Rightarrow> []
             | Some seed \<Rightarrow> [CHR 0x0A, CHR 0x0A] @ str_Candidate pr seed)
      in \<lparr>req_problem = problem (base state),
           req_candidate = candidate_str,
           req_k = k configurable\<rparr>)"

text \<open>
  \<^verbatim>\<open>expand\<close> of the chain-of-thought variant. Only the call of the solver is inside the
  \<^verbatim>\<open>try\<close>; reading \<^verbatim>\<open>equation_submission.equations\<close> comes after it, and raises
  \<^verbatim>\<open>AttributeError\<close> when the solver returned \<^verbatim>\<open>None\<close>.
\<close>

definition expand_cot ::
  "printers \<Rightarrow> (Request \<Rightarrow> solver_outcome) \<Rightarrow> ExpansionState \<Rightarrow> RunnableConfig
     \<Rightarrow> py_error + node_update" where
  "expand_cot pr solver state config =
     (case solver (expand_request_cot pr state config) of
        Raises \<Rightarrow>
          Inr \<lparr>upd_candidates = Some (Items []),
               upd_scored_candidates = None,
               upd_depth = None\<rparr>
      | ReturnsNone \<Rightarrow> Inl AttributeError
      | Returns equation_submission \<Rightarrow>
          Inr \<lparr>upd_candidates = Some (Items (map new_Candidate (equations equation_submission))),
               upd_scored_candidates = None,
               upd_depth = None\<rparr>)"

subsection \<open>Reading the result of a run\<close>

text \<open>
  \<^verbatim>\<open>max(candidates, key=lambda c: c.score)\<close>: \<^verbatim>\<open>ValueError\<close> on an empty list, the first
  of the candidates with the greatest score otherwise; comparing a score that is
  \<^verbatim>\<open>None\<close> raises \<^verbatim>\<open>TypeError\<close>.
\<close>

fun max_loop :: "Candidate \<Rightarrow> Candidate list \<Rightarrow> Candidate" where
  "max_loop best [] = best"
| "max_loop best (c # cs) = max_loop (if score_key c > score_key best then c else best) cs"

definition max_by_score :: "Candidate list \<Rightarrow> py_error + Candidate" where
  "max_by_score cs =
     (case cs of
        [] \<Rightarrow> Inl ValueError
      | c # rest \<Rightarrow>
          if rest \<noteq> [] \<and> list_ex (\<lambda>c. score c = None) cs then Inl TypeError
          else Inr (max_loop c rest))"

record RunResult =
  res_solved :: bool
  res_depth :: int
  res_best_score :: real
  res_equation :: string
  res_feedback :: "string option"

text \<open>
  \<^verbatim>\<open>run_tot_on_problem\<close>, from \<^verbatim>\<open># Get final state\<close> on: the final state of the graph
  is an argument. \<^verbatim>\<open>config["configurable"]\<close> raises \<^verbatim>\<open>KeyError\<close> when the key is absent.
\<close>

definition run_tot_on_problem ::
  "printers \<Rightarrow> ToTState \<Rightarrow> RunnableConfig \<Rightarrow> py_error + RunResult" where
  "run_tot_on_problem pr final_state config =
     (case max_by_score (candidates final_state) of
        Inl e \<Rightarrow> Inl e
      | Inr best \<Rightarrow>
          (case get_configurable config of
             None \<Rightarrow> Inl KeyError
           | Some configurable \<Rightarrow>
               (case score best of
                  None \<Rightarrow> Inl TypeError
                | Some s \<Rightarrow>
                    Inr \<lparr>res_solved =
                           (s \<ge> (case get_threshold configurable of None \<Rightarrow> 9 / 10 | Some t \<Rightarrow> t)),
                         res_depth = depth final_state,
                         res_best_score = s,
                         res_equation = repr_tokens pr (tokens (candidate best)),
                         res_feedback = feedback best\<rparr>)))"

text \<open>
  The \<^verbatim>\<open>try\<close> of \<^verbatim>\<open>run_tot_on_many_problems\<close> around one problem: any exception is
  printed and recorded as an unsolved result with the equation \<^verbatim>\<open>"ERROR"\<close>. The depth
  recorded is \<open>-1\<close> in the heuristic variant and \<open>0\<close> in the other; the feedback is the
  text of the exception.
\<close>

definition record_result :: "variant \<Rightarrow> printers \<Rightarrow> py_error + RunResult \<Rightarrow> RunResult" where
  "record_result v pr r =
     (case r of
        Inr result \<Rightarrow> result
      | Inl e \<Rightarrow>
          \<lparr>res_solved = False,
           res_depth = (case v of Heuristic \<Rightarrow> - 1 | ChainOfThought \<Rightarrow> 0),
           res_best_score = 0,
           res_equation = ''ERROR'',
           res_feedback = Some (str_exc pr e)\<rparr>)"

section \<open>Properties\<close>

subsection \<open>The evaluator\<close>




















subsection \<open>The scorer\<close>

lemma sort_eq_iff_mset: "sort xs = sort ys \<longleftrightarrow> mset xs = mset ys"
proof
  assume "sort xs = sort ys"
  then have "mset (sort xs) = mset (sort ys)" by simp
  then show "mset xs = mset ys" by simp
next
  assume "mset xs = mset ys"
  then have "mset (sort ys) = mset xs" by simp
  then show "sort xs = sort ys" by (rule properties_for_sort) simp
qed


lemma parse_1234: "parse_numbers ''1 2 3 4'' = Inr [1, 2, 3, 4]"
  by code_simp

lemma parse_4321: "parse_numbers ''4 3 2 1'' = Inr [4, 3, 2, 1]"
  by code_simp

lemma parse_4666: "parse_numbers ''4 6 6 6'' = Inr [4, 6, 6, 6]"
  by code_simp



text \<open>
  C9. Two problem strings that parse to the same multiset of numbers give the same
  scored candidate, for every candidate.
\<close>

theorem compute_score_order_invariant:
  assumes "parse_numbers p1 = Inr ns1" and "parse_numbers p2 = Inr ns2"
    and "mset ns1 = mset ns2"
  shows "compute_score pr p1 c = compute_score pr p2 c"
proof -
  have "mset (map real_of_int ns1) = mset (map real_of_int ns2)"
    using assms(3) by (metis mset_map)
  then have "sort (map real_of_int ns1) = sort (map real_of_int ns2)"
    by (simp add: sort_eq_iff_mset)
  then show ?thesis using assms(1,2) by (simp add: compute_score_def)
qed

theorem compute_score_order_invariant_witness:
  "\<forall>pr c. parse_numbers ''1 2 3 4'' = Inr [1, 2, 3, 4]
     \<and> parse_numbers ''4 3 2 1'' = Inr [4, 3, 2, 1]
     \<and> mset [1, 2, 3, 4 :: int] = mset [4, 3, 2, 1]
     \<and> compute_score pr ''1 2 3 4'' c = compute_score pr ''4 3 2 1'' c"
proof (intro allI)
  fix pr c
  have m: "mset [1, 2, 3, 4 :: int] = mset [4, 3, 2, 1]" by simp
  show "parse_numbers ''1 2 3 4'' = Inr [1, 2, 3, 4]
     \<and> parse_numbers ''4 3 2 1'' = Inr [4, 3, 2, 1]
     \<and> mset [1, 2, 3, 4 :: int] = mset [4, 3, 2, 1]
     \<and> compute_score pr ''1 2 3 4'' c = compute_score pr ''4 3 2 1'' c"
    using compute_score_order_invariant [OF parse_1234 parse_4321 m, of pr c]
      parse_1234 parse_4321 m by simp
qed

subsection \<open>Pruning\<close>






subsection \<open>The termination check and the result of a run\<close>

text \<open>
  C1 (the code at an empty frontier). With no candidate left after pruning, the
  termination check of the heuristic variant ends the run, the one of the
  chain-of-thought variant raises \<^verbatim>\<open>IndexError\<close>, and \<^verbatim>\<open>run_tot_on_problem\<close> raises
  \<^verbatim>\<open>ValueError\<close> from \<^verbatim>\<open>max\<close> of an empty list; only the \<^verbatim>\<open>try\<close> of the batch loop
  turns that exception into an \<^verbatim>\<open>"ERROR"\<close> record.
\<close>

theorem empty_frontier_outcomes:
  "\<forall>p d config pr.
     should_terminate_heu
        \<lparr>problem = p, candidates = [], scored_candidates = [], depth = d\<rparr> config = Inr End
   \<and> should_terminate_cot
        \<lparr>problem = p, candidates = [], scored_candidates = [], depth = d\<rparr> config
        = Inl IndexError
   \<and> run_tot_on_problem pr
        \<lparr>problem = p, candidates = [], scored_candidates = [], depth = d\<rparr> config
        = Inl ValueError
   \<and> record_result Heuristic pr
        (run_tot_on_problem pr
           \<lparr>problem = p, candidates = [], scored_candidates = [], depth = d\<rparr> config)
        = \<lparr>res_solved = False, res_depth = - 1, res_best_score = 0,
           res_equation = ''ERROR'', res_feedback = Some (str_exc pr ValueError)\<rparr>"
  by (simp add: should_terminate_heu_def should_terminate_cot_def run_tot_on_problem_def
      max_by_score_def record_result_def)

text \<open>
  C7 (the code at a configured threshold). With \<^verbatim>\<open>"threshold": 0.99\<close> under
  \<^verbatim>\<open>configurable\<close>, as the batch loop passes it, and a best score of 0.95, the
  termination check of both variants ends the run as solved, because it compares with
  0.9; \<^verbatim>\<open>run_tot_on_problem\<close> reads the configured 0.99 and reports the same state as
  not solved.
\<close>

theorem threshold_not_read_from_configurable:
  "\<forall>pr.
     threshold (ensure_configurable Heuristic
        \<lparr>get_configurable = Some (empty_configurable\<lparr>get_threshold := Some (99 / 100)\<rparr>),
         get_top_threshold = None\<rparr>) = 9 / 10
   \<and> should_terminate_heu
        \<lparr>problem = ''1 1 4 6'',
         candidates = [ScoredCandidate \<lparr>tokens = []\<rparr> (95 / 100) ''f''],
         scored_candidates = [], depth = 1\<rparr>
        \<lparr>get_configurable = Some (empty_configurable\<lparr>get_threshold := Some (99 / 100)\<rparr>),
         get_top_threshold = None\<rparr> = Inr End
   \<and> should_terminate_cot
        \<lparr>problem = ''1 1 4 6'',
         candidates = [ScoredCandidate \<lparr>tokens = []\<rparr> (95 / 100) ''f''],
         scored_candidates = [], depth = 1\<rparr>
        \<lparr>get_configurable = Some (empty_configurable\<lparr>get_threshold := Some (99 / 100)\<rparr>),
         get_top_threshold = None\<rparr> = Inr End
   \<and> run_tot_on_problem pr
        \<lparr>problem = ''1 1 4 6'',
         candidates = [ScoredCandidate \<lparr>tokens = []\<rparr> (95 / 100) ''f''],
         scored_candidates = [], depth = 1\<rparr>
        \<lparr>get_configurable = Some (empty_configurable\<lparr>get_threshold := Some (99 / 100)\<rparr>),
         get_top_threshold = None\<rparr>
       = Inr \<lparr>res_solved = False, res_depth = 1, res_best_score = 95 / 100,
              res_equation = ''[]'', res_feedback = Some ''f''\<rparr>"
  by (simp add: should_terminate_heu_def should_terminate_cot_def run_tot_on_problem_def
      max_by_score_def ensure_configurable_def empty_configurable_def ScoredCandidate_def
      repr_tokens_def repr_list_def)

text \<open>
  The threshold the termination check uses never depends on the \<^verbatim>\<open>configurable\<close>
  dictionary.
\<close>

lemma ensure_configurable_threshold:
  "threshold (ensure_configurable v config)
     = (case get_top_threshold config of None \<Rightarrow> 9 / 10 | Some t \<Rightarrow> t)"
  by (simp add: ensure_configurable_def Let_def)

text \<open>
  C2 (the code at a frontier of one candidate, chain-of-thought variant). The
  termination check sends one expansion for the candidate, but under the key
  \<^verbatim>\<open>"somevalseed"\<close>; \<^verbatim>\<open>expand\<close> looks for \<^verbatim>\<open>"seed"\<close>, finds none, and sends an empty hint.
\<close>

theorem seed_key_mismatch_cot:
  "\<forall>pr config.
     should_terminate_cot
        \<lparr>problem = ''4 6 6 6'',
         candidates = [ScoredCandidate \<lparr>tokens = [Num 4, Num 6, Op Add]\<rparr> 0 ''f''],
         scored_candidates = [], depth = 1\<rparr>
        \<lparr>get_configurable = None, get_top_threshold = None\<rparr>
       = Inr (Fanout [\<lparr>node = ''expand'',
                arg = \<lparr>base = \<lparr>problem = ''4 6 6 6'',
                         candidates = [ScoredCandidate \<lparr>tokens = [Num 4, Num 6, Op Add]\<rparr> 0 ''f''],
                         scored_candidates = [], depth = 1\<rparr>,
                       extras = [(''somevalseed'',
                         ScoredCandidate \<lparr>tokens = [Num 4, Num 6, Op Add]\<rparr> 0 ''f'')]\<rparr>\<rparr>])
   \<and> get_seed \<lparr>base = \<lparr>problem = ''4 6 6 6'',
                         candidates = [ScoredCandidate \<lparr>tokens = [Num 4, Num 6, Op Add]\<rparr> 0 ''f''],
                         scored_candidates = [], depth = 1\<rparr>,
                 extras = [(''somevalseed'',
                         ScoredCandidate \<lparr>tokens = [Num 4, Num 6, Op Add]\<rparr> 0 ''f'')]\<rparr> = None
   \<and> req_candidate (expand_request_cot pr
          \<lparr>base = \<lparr>problem = ''4 6 6 6'',
                         candidates = [ScoredCandidate \<lparr>tokens = [Num 4, Num 6, Op Add]\<rparr> 0 ''f''],
                         scored_candidates = [], depth = 1\<rparr>,
           extras = [(''somevalseed'',
                         ScoredCandidate \<lparr>tokens = [Num 4, Num 6, Op Add]\<rparr> 0 ''f'')]\<rparr> config) = []"
  by (simp add: should_terminate_cot_def ensure_configurable_def empty_configurable_def
      ScoredCandidate_def get_seed_def expand_request_cot_def)

text \<open>
  In the heuristic variant the two halves fit: a round that goes on sends exactly one
  expansion per frontier member, each with that member as its seed, and the request of
  an expansion that has a seed carries the text of the seed, which shows its tokens and
  its score.
\<close>

lemma should_terminate_heu_fanout:
  assumes "should_terminate_heu s config = Inr (Fanout sends)"
  shows "map (\<lambda>m. get_seed (arg m)) sends = map Some (candidates s)"
    and "list_all (\<lambda>m. node m = ''expand'' \<and> base (arg m) = s) sends"
  using assms
  by (auto simp: should_terminate_heu_def get_seed_def Let_def list_all_iff
      split: list.splits option.splits if_splits)

lemma expand_request_heu_hint:
  assumes "get_seed st = Some seed" and "parse_numbers (problem (base st)) = Inr nums"
  shows "\<exists>req. expand_request_heu pr st config = Inr (nums, [], req)
          \<and> req_problem req = problem (base st)
          \<and> req_candidate req = hint_prefix @ str_Candidate pr seed"
  using assms by (simp add: expand_request_heu_def)

lemma str_Candidate_shows_tokens_and_score:
  "\<exists>computed. str_Candidate pr c =
     ''Equation('' @ repr_tokens pr (tokens (candidate c)) @ '') = '' @ computed
       @ '' (Reward: '' @ str_optional_float pr (score c) @ '')''"
  by (simp add: str_Candidate_def Let_def)

subsection \<open>The expansion step\<close>

lemma heuristic_4666:
  "generate_heuristic_candidates [4, 6, 6, 6] =
     Inr [\<lparr>tokens = [Num 4, Num 6, Op Add, Num 6, Op Add, Num 6, Op Add]\<rparr>,
          \<lparr>tokens = [Num 4, Num 6, Op Add, Num 6, Op Sub, Num 6, Op Mul]\<rparr>,
          \<lparr>tokens = [Num 4, Num 6, Op Sub, Num 6, Op Add, Num 6, Op Mul]\<rparr>,
          \<lparr>tokens = [Num 4, Num 6, Op Mul, Num 6, Op Add, Num 6, Op Sub]\<rparr>,
          \<lparr>tokens = [Num 4, Num 6, Op Mul, Num 6, Op Sub, Num 6, Op Add]\<rparr>,
          \<lparr>tokens = [Num 4, Num 6, Op Mul, Num 6, Op Mul, Num 6, Op Div]\<rparr>,
          \<lparr>tokens = [Num 4, Num 6, Op Mul, Num 6, Op Div, Num 6, Op Mul]\<rparr>,
          \<lparr>tokens = [Num 4, Num 6, Op Div, Num 6, Op Mul, Num 6, Op Mul]\<rparr>,
          \<lparr>tokens = [Num 4, Num 6, Op Add, Num 6, Op Add, Num 6, Op Add]\<rparr>,
          \<lparr>tokens = [Num 4, Num 6, Op Add, Num 6, Op Sub, Num 6, Op Mul]\<rparr>]"
  by code_simp

lemma generate_heuristic_candidates_length:
  "generate_heuristic_candidates nums = Inr eqs \<Longrightarrow> length eqs \<le> 10"
  by (auto simp: generate_heuristic_candidates_def split: if_splits)

lemma expand_request_heu_cases:
  assumes "expand_request_heu pr st config = Inr (nums, held, req)"
  shows "parse_numbers (problem (base st)) = Inr nums"
    and "get_seed st \<noteq> None \<Longrightarrow> held = []"
    and "get_seed st = None \<Longrightarrow>
           \<exists>eqs. generate_heuristic_candidates nums = Inr eqs \<and> held = map new_Candidate eqs"
  using assms
  by (auto simp: expand_request_heu_def Let_def split: sum.splits option.splits)

lemma expand_request_heu_succeeds:
  "(\<exists>nums held req. expand_request_heu pr st config = Inr (nums, held, req)) \<longleftrightarrow>
   (\<exists>nums. parse_numbers (problem (base st)) = Inr nums
            \<and> (get_seed st \<noteq> None \<or> 4 \<le> length nums))"
  by (auto simp: expand_request_heu_def generate_heuristic_candidates_def Let_def
      split: sum.splits option.splits if_splits)

lemma expand_heu_failure:
  assumes "expand_request_heu pr st config = Inr (nums, held, req)"
    and "solver req = Raises \<or> solver req = ReturnsNone"
  shows "expand_heu pr solver st config =
           Inr \<lparr>upd_candidates = Some (Items held), upd_scored_candidates = None,
                upd_depth = None\<rparr>"
  using assms by (auto simp: expand_heu_def)

lemma expand_heu_returns:
  assumes "expand_request_heu pr st config = Inr (nums, held, req)"
    and "solver req = Returns sub"
  shows "expand_heu pr solver st config =
           Inr \<lparr>upd_candidates = Some (Items (map new_Candidate
                   (filter (\<lambda>eq. is_valid_equation (tokens eq) nums) (equations sub)))),
                upd_scored_candidates = None, upd_depth = None\<rparr>"
  using assms by (simp add: expand_heu_def)

text \<open>
  C6 (amended). When the solver raises, \<^verbatim>\<open>expand\<close> does not raise: the chain-of-thought
  variant returns the empty list, and the heuristic variant returns the candidates it
  holds, which are none when a seed is present and the heuristic candidates (at most
  ten) when there is no seed; the heuristic variant treats a solver that returns
  \<^verbatim>\<open>None\<close> the same way. A submission without equations gives the empty list in both
  variants. The first half of the heuristic \<^verbatim>\<open>expand\<close>, before the solver is called,
  succeeds exactly when the problem parses and a seed is present or there are at least
  four numbers.
\<close>

theorem expand_absorbs_solver_failure:
  "(solver (expand_request_cot pr st config) = Raises \<longrightarrow>
      expand_cot pr solver st config =
        Inr \<lparr>upd_candidates = Some (Items []), upd_scored_candidates = None, upd_depth = None\<rparr>)
   \<and> (\<forall>nums held req.
         expand_request_heu pr st config = Inr (nums, held, req)
           \<and> (solver req = Raises \<or> solver req = ReturnsNone) \<longrightarrow>
         expand_heu pr solver st config =
           Inr \<lparr>upd_candidates = Some (Items held), upd_scored_candidates = None,
                upd_depth = None\<rparr>
         \<and> (get_seed st \<noteq> None \<longrightarrow> held = [])
         \<and> (get_seed st = None \<longrightarrow>
              (\<exists>eqs. generate_heuristic_candidates nums = Inr eqs
                     \<and> held = map new_Candidate eqs \<and> length eqs \<le> 10)))
   \<and> (\<forall>r. solver (expand_request_cot pr st config) = Returns \<lparr>reasoning = r, equations = []\<rparr> \<longrightarrow>
         expand_cot pr solver st config =
           Inr \<lparr>upd_candidates = Some (Items []), upd_scored_candidates = None,
                upd_depth = None\<rparr>)
   \<and> (\<forall>nums held req r.
         expand_request_heu pr st config = Inr (nums, held, req)
           \<and> solver req = Returns \<lparr>reasoning = r, equations = []\<rparr> \<longrightarrow>
         expand_heu pr solver st config =
           Inr \<lparr>upd_candidates = Some (Items []), upd_scored_candidates = None,
                upd_depth = None\<rparr>)
   \<and> ((\<exists>nums held req. expand_request_heu pr st config = Inr (nums, held, req)) \<longleftrightarrow>
        (\<exists>nums. parse_numbers (problem (base st)) = Inr nums
                 \<and> (get_seed st \<noteq> None \<or> 4 \<le> length nums)))"
proof (intro conjI allI impI)
  assume "solver (expand_request_cot pr st config) = Raises"
  then show "expand_cot pr solver st config =
        Inr \<lparr>upd_candidates = Some (Items []), upd_scored_candidates = None, upd_depth = None\<rparr>"
    by (simp add: expand_cot_def)
next
  fix nums held req
  assume h: "expand_request_heu pr st config = Inr (nums, held, req)
           \<and> (solver req = Raises \<or> solver req = ReturnsNone)"
  then show "expand_heu pr solver st config =
           Inr \<lparr>upd_candidates = Some (Items held), upd_scored_candidates = None,
                upd_depth = None\<rparr>"
    using expand_heu_failure [of pr st config nums held req solver] by blast
  { assume "get_seed st \<noteq> None"
    then show "held = []" using expand_request_heu_cases(2) h by blast }
  { assume "get_seed st = None"
    then show "\<exists>eqs. generate_heuristic_candidates nums = Inr eqs
                     \<and> held = map new_Candidate eqs \<and> length eqs \<le> 10"
      using expand_request_heu_cases(3) [of pr st config nums held req] h
        generate_heuristic_candidates_length [of nums] by blast }
next
  fix r
  assume "solver (expand_request_cot pr st config) = Returns \<lparr>reasoning = r, equations = []\<rparr>"
  then show "expand_cot pr solver st config =
           Inr \<lparr>upd_candidates = Some (Items []), upd_scored_candidates = None,
                upd_depth = None\<rparr>"
    by (simp add: expand_cot_def)
next
  fix nums held req r
  assume "expand_request_heu pr st config = Inr (nums, held, req)
           \<and> solver req = Returns \<lparr>reasoning = r, equations = []\<rparr>"
  then show "expand_heu pr solver st config =
           Inr \<lparr>upd_candidates = Some (Items []), upd_scored_candidates = None,
                upd_depth = None\<rparr>"
    using expand_heu_returns [of pr st config nums held req solver] by auto
next
  show "(\<exists>nums held req. expand_request_heu pr st config = Inr (nums, held, req)) \<longleftrightarrow>
        (\<exists>nums. parse_numbers (problem (base st)) = Inr nums
                 \<and> (get_seed st \<noteq> None \<or> 4 \<le> length nums))"
    by (rule expand_request_heu_succeeds)
qed

theorem expand_absorbs_solver_failure_witness:
  "\<forall>pr config.
     expand_cot pr (\<lambda>req. Raises) \<lparr>base = \<lparr>problem = ''4 6 6 6'',
                   candidates = [ScoredCandidate \<lparr>tokens = [Num 4, Num 6, Op Add]\<rparr> 0 ''f''],
                   scored_candidates = [], depth = 1\<rparr>,
          extras = [(''seed'', ScoredCandidate \<lparr>tokens = [Num 4, Num 6, Op Add]\<rparr> 0 ''f'')]\<rparr> config = Inr \<lparr>upd_candidates = Some (Items []), upd_scored_candidates = None, upd_depth = None\<rparr>
   \<and> get_seed \<lparr>base = \<lparr>problem = ''4 6 6 6'',
                   candidates = [ScoredCandidate \<lparr>tokens = [Num 4, Num 6, Op Add]\<rparr> 0 ''f''],
                   scored_candidates = [], depth = 1\<rparr>,
          extras = [(''seed'', ScoredCandidate \<lparr>tokens = [Num 4, Num 6, Op Add]\<rparr> 0 ''f'')]\<rparr> = Some (ScoredCandidate \<lparr>tokens = [Num 4, Num 6, Op Add]\<rparr> 0 ''f'')
   \<and> expand_heu pr (\<lambda>req. Raises) \<lparr>base = \<lparr>problem = ''4 6 6 6'',
                   candidates = [ScoredCandidate \<lparr>tokens = [Num 4, Num 6, Op Add]\<rparr> 0 ''f''],
                   scored_candidates = [], depth = 1\<rparr>,
          extras = [(''seed'', ScoredCandidate \<lparr>tokens = [Num 4, Num 6, Op Add]\<rparr> 0 ''f'')]\<rparr> config = Inr \<lparr>upd_candidates = Some (Items []), upd_scored_candidates = None, upd_depth = None\<rparr>"
proof (intro allI)
  fix pr config
  let ?st = "\<lparr>base = \<lparr>problem = ''4 6 6 6'',
                   candidates = [ScoredCandidate \<lparr>tokens = [Num 4, Num 6, Op Add]\<rparr> 0 ''f''],
                   scored_candidates = [], depth = 1\<rparr>,
          extras = [(''seed'', ScoredCandidate \<lparr>tokens = [Num 4, Num 6, Op Add]\<rparr> 0 ''f'')]\<rparr>"
  let ?solver = "\<lambda>req::Request. Raises"
  have seed: "get_seed ?st = Some (ScoredCandidate \<lparr>tokens = [Num 4, Num 6, Op Add]\<rparr> 0 ''f'')"
    by (simp add: get_seed_def)
  have parse: "parse_numbers (problem (base ?st)) = Inr [4, 6, 6, 6]"
    by (simp add: parse_4666)
  from expand_request_heu_hint [OF seed parse] obtain req where
    r: "expand_request_heu pr ?st config = Inr ([4, 6, 6, 6], [], req)" by blast
  note t = expand_absorbs_solver_failure [of ?solver pr ?st config]
  from t have cot: "expand_cot pr ?solver ?st config = Inr \<lparr>upd_candidates = Some (Items []), upd_scored_candidates = None, upd_depth = None\<rparr>"
    by simp
  from t have "expand_request_heu pr ?st config = Inr ([4, 6, 6, 6], [], req)
           \<and> (?solver req = Raises \<or> ?solver req = ReturnsNone) \<longrightarrow>
         expand_heu pr ?solver ?st config = Inr \<lparr>upd_candidates = Some (Items []), upd_scored_candidates = None, upd_depth = None\<rparr>"
    by blast
  with r have heu: "expand_heu pr ?solver ?st config = Inr \<lparr>upd_candidates = Some (Items []), upd_scored_candidates = None, upd_depth = None\<rparr>"
    by simp
  show "expand_cot pr ?solver ?st config = Inr \<lparr>upd_candidates = Some (Items []), upd_scored_candidates = None, upd_depth = None\<rparr>
   \<and> get_seed ?st = Some (ScoredCandidate \<lparr>tokens = [Num 4, Num 6, Op Add]\<rparr> 0 ''f'')
   \<and> expand_heu pr ?solver ?st config = Inr \<lparr>upd_candidates = Some (Items []), upd_scored_candidates = None, upd_depth = None\<rparr>"
    by (rule conjI [OF cot conjI [OF seed heu]])
qed

text \<open>
  C6 (as stated) fails in the heuristic variant at the start of a run: there is no seed,
  the solver raises, and \<^verbatim>\<open>expand\<close> returns the ten heuristic candidates of the problem
  \<^verbatim>\<open>4 6 6 6\<close>, not the empty list.
\<close>

theorem expand_heu_fallback_counterexample:
  "\<forall>pr config.
     expand_heu pr (\<lambda>req. Raises) \<lparr>base = \<lparr>problem = ''4 6 6 6'', candidates = [], scored_candidates = [], depth = 0\<rparr>,
          extras = []\<rparr> config
       = Inr \<lparr>upd_candidates = Some (Items (map new_Candidate
            [\<lparr>tokens = [Num 4, Num 6, Op Add, Num 6, Op Add, Num 6, Op Add]\<rparr>,
             \<lparr>tokens = [Num 4, Num 6, Op Add, Num 6, Op Sub, Num 6, Op Mul]\<rparr>,
             \<lparr>tokens = [Num 4, Num 6, Op Sub, Num 6, Op Add, Num 6, Op Mul]\<rparr>,
             \<lparr>tokens = [Num 4, Num 6, Op Mul, Num 6, Op Add, Num 6, Op Sub]\<rparr>,
             \<lparr>tokens = [Num 4, Num 6, Op Mul, Num 6, Op Sub, Num 6, Op Add]\<rparr>,
             \<lparr>tokens = [Num 4, Num 6, Op Mul, Num 6, Op Mul, Num 6, Op Div]\<rparr>,
             \<lparr>tokens = [Num 4, Num 6, Op Mul, Num 6, Op Div, Num 6, Op Mul]\<rparr>,
             \<lparr>tokens = [Num 4, Num 6, Op Div, Num 6, Op Mul, Num 6, Op Mul]\<rparr>,
             \<lparr>tokens = [Num 4, Num 6, Op Add, Num 6, Op Add, Num 6, Op Add]\<rparr>,
             \<lparr>tokens = [Num 4, Num 6, Op Add, Num 6, Op Sub, Num 6, Op Mul]\<rparr>])),
              upd_scored_candidates = None, upd_depth = None\<rparr>"
  by (simp add: expand_heu_def expand_request_heu_def get_seed_def parse_4666 heuristic_4666)

lemma compute_score_candidate:
  "compute_score pr p c = Inr sc \<Longrightarrow> candidate sc = candidate c"
  by (auto simp: compute_score_def ScoredCandidate_def split: sum.splits if_splits)

lemma score_loop_candidates:
  "score_loop pr p cs = Inr scs \<Longrightarrow> map candidate scs = map candidate cs"
proof (induction cs arbitrary: scs)
  case Nil
  then show ?case by simp
next
  case (Cons c cs)
  then show ?case
    by (auto split: sum.splits dest: compute_score_candidate)
qed

lemma sorted_by_score_reverse_set:
  "sorted_by_score_reverse cs = Inr organized \<Longrightarrow> set organized = set cs"
  by (auto simp: sorted_by_score_reverse_def split: if_splits)

lemma slice_to_subset: "set (slice_to n xs) \<subseteq> set xs"
  by (auto simp: slice_to_def dest: in_set_takeD)

lemma frontier_after_score_and_prune:
  assumes "scored_candidates s = []"
    and "score_node pr s = Inr u1" and "prune v (apply_update s u1) config = Inr u2"
  shows "candidate ` set (candidates (apply_update (apply_update s u1) u2))
           \<subseteq> candidate ` set (candidates s)"
proof -
  from assms(2) obtain scored where sc: "score_loop pr (problem s) (candidates s) = Inr scored"
    and u1: "u1 = \<lparr>upd_candidates = Some Clear, upd_scored_candidates = Some (Items scored),
                   upd_depth = None\<rparr>"
    by (auto simp: score_node_def split: sum.splits)
  let ?s1 = "apply_update s u1"
  have c1: "candidates ?s1 = []" and s1: "scored_candidates ?s1 = scored"
    by (simp_all add: u1 assms(1) apply_update_def update_candidates_def)
  from assms(3) obtain organized where
    org: "sorted_by_score_reverse (scored_candidates ?s1) = Inr organized"
    and u2: "upd_candidates u2
               = Some (Items (slice_to (beam_size (ensure_configurable v config)) organized))"
    by (auto simp: prune_def Let_def split: sum.splits)
  have "candidates (apply_update ?s1 u2)
          = slice_to (beam_size (ensure_configurable v config)) organized"
    using c1 u2 by (simp add: apply_update_def update_candidates_def)
  then have "set (candidates (apply_update ?s1 u2)) \<subseteq> set (scored_candidates ?s1)"
    using slice_to_subset sorted_by_score_reverse_set [OF org] by metis
  then have "candidate ` set (candidates (apply_update ?s1 u2)) \<subseteq> set (map candidate scored)"
    using s1 by auto
  then show ?thesis using score_loop_candidates [OF sc] by simp
qed

text \<open>
  C10. In the heuristic variant, when the solver returns a submission, the candidates
  \<^verbatim>\<open>expand\<close> returns are exactly the submitted equations that pass
  \<^verbatim>\<open>is_valid_equation\<close> against the numbers of the problem, in their order: each uses
  the multiset of the problem numbers, and an equation that does not is not among them.
  Scoring and pruning a state that holds these candidates, and besides them only
  candidates that pass the check, gives a frontier of candidates that pass it.
\<close>

theorem expand_heu_keeps_valid_only:
  assumes "expand_request_heu pr st config = Inr (nums, held, req)"
    and "solver req = Returns sub"
  shows "\<exists>cs. expand_heu pr solver st config =
                Inr \<lparr>upd_candidates = Some (Items cs), upd_scored_candidates = None,
                     upd_depth = None\<rparr>
          \<and> parse_numbers (problem (base st)) = Inr nums
          \<and> cs = map new_Candidate
                   (filter (\<lambda>eq. is_valid_equation (tokens eq) nums) (equations sub))
          \<and> (\<forall>c \<in> set cs. is_valid_equation (tokens (candidate c)) nums
                  \<and> mset (used_numbers (tokens (candidate c))) = mset (map real_of_int nums))
          \<and> (\<forall>eq \<in> set (equations sub).
                 \<not> is_valid_equation (tokens eq) nums \<longrightarrow> eq \<notin> candidate ` set cs)
          \<and> (\<forall>s u1 u2.
                 set (candidates s) \<subseteq> set cs \<union> {c. is_valid_equation (tokens (candidate c)) nums}
                   \<and> scored_candidates s = []
                   \<and> score_node pr s = Inr u1
                   \<and> prune v (apply_update s u1) config = Inr u2 \<longrightarrow>
                 (\<forall>c \<in> set (candidates (apply_update (apply_update s u1) u2)).
                    is_valid_equation (tokens (candidate c)) nums))"
proof -
  let ?cs = "map new_Candidate
               (filter (\<lambda>eq. is_valid_equation (tokens eq) nums) (equations sub))"
  have valid: "\<forall>c \<in> set ?cs. is_valid_equation (tokens (candidate c)) nums"
    by (auto simp: new_Candidate_def)
  then have msets: "\<forall>c \<in> set ?cs. is_valid_equation (tokens (candidate c)) nums
      \<and> mset (used_numbers (tokens (candidate c))) = mset (map real_of_int nums)"
    by (simp add: is_valid_equation_def sort_eq_iff_mset)
  have dropped: "\<forall>eq \<in> set (equations sub).
      \<not> is_valid_equation (tokens eq) nums \<longrightarrow> eq \<notin> candidate ` set ?cs"
    by (auto simp: new_Candidate_def)
  have frontier: "\<forall>s u1 u2.
      set (candidates s) \<subseteq> set ?cs \<union> {c. is_valid_equation (tokens (candidate c)) nums}
        \<and> scored_candidates s = [] \<and> score_node pr s = Inr u1
        \<and> prune v (apply_update s u1) config = Inr u2 \<longrightarrow>
      (\<forall>c \<in> set (candidates (apply_update (apply_update s u1) u2)).
         is_valid_equation (tokens (candidate c)) nums)"
  proof (intro allI impI ballI)
    fix s u1 u2 c
    assume h: "set (candidates s) \<subseteq> set ?cs \<union> {c. is_valid_equation (tokens (candidate c)) nums}
        \<and> scored_candidates s = [] \<and> score_node pr s = Inr u1
        \<and> prune v (apply_update s u1) config = Inr u2"
      and c: "c \<in> set (candidates (apply_update (apply_update s u1) u2))"
    from h have all_valid: "\<forall>c' \<in> set (candidates s). is_valid_equation (tokens (candidate c')) nums"
      using valid by blast
    from h frontier_after_score_and_prune [of s pr u1 v config u2]
    have "candidate ` set (candidates (apply_update (apply_update s u1) u2))
            \<subseteq> candidate ` set (candidates s)" by simp
    with c obtain c' where c': "c' \<in> set (candidates s)" and eq: "candidate c = candidate c'"
      by blast
    from all_valid c' have "is_valid_equation (tokens (candidate c')) nums" by (rule bspec)
    then show "is_valid_equation (tokens (candidate c)) nums" by (simp only: eq)
  qed
  have run: "expand_heu pr solver st config =
      Inr \<lparr>upd_candidates = Some (Items ?cs), upd_scored_candidates = None, upd_depth = None\<rparr>"
    using assms by (rule expand_heu_returns [of pr st config nums held req solver sub])
  have parse: "parse_numbers (problem (base st)) = Inr nums"
    using assms(1) by (rule expand_request_heu_cases(1))
  from run parse msets dropped frontier
  show ?thesis by blast
qed

theorem expand_heu_keeps_valid_only_witness:
  "\<forall>pr config.
     expand_heu pr (\<lambda>req. Returns \<lparr>reasoning = ''r'',
           equations = [\<lparr>tokens = [Num 6, Num 4, Op Mul, Num 6, Op Add, Num 6, Op Sub]\<rparr>,
                        \<lparr>tokens = [Num 6, Num 4, Op Mul]\<rparr>]\<rparr>) \<lparr>base = \<lparr>problem = ''4 6 6 6'', candidates = [], scored_candidates = [], depth = 0\<rparr>,
          extras = []\<rparr> config
       = Inr \<lparr>upd_candidates = Some (Items
                [new_Candidate \<lparr>tokens = [Num 6, Num 4, Op Mul, Num 6, Op Add, Num 6, Op Sub]\<rparr>]),
              upd_scored_candidates = None, upd_depth = None\<rparr>
   \<and> is_valid_equation [Num 6, Num 4, Op Mul, Num 6, Op Add, Num 6, Op Sub] [4, 6, 6, 6]
   \<and> \<not> is_valid_equation [Num 6, Num 4, Op Mul] [4, 6, 6, 6]"
proof (intro allI)
  fix pr config
  let ?st = "\<lparr>base = \<lparr>problem = ''4 6 6 6'', candidates = [], scored_candidates = [], depth = 0\<rparr>,
          extras = []\<rparr>"
  let ?sub = "\<lparr>reasoning = ''r'',
           equations = [\<lparr>tokens = [Num 6, Num 4, Op Mul, Num 6, Op Add, Num 6, Op Sub]\<rparr>,
                        \<lparr>tokens = [Num 6, Num 4, Op Mul]\<rparr>]\<rparr>"
  let ?solver = "\<lambda>req::Request. Returns ?sub"
  have v1: "is_valid_equation [Num 6, Num 4, Op Mul, Num 6, Op Add, Num 6, Op Sub] [4, 6, 6, 6]"
    by (simp add: is_valid_equation_def)
  have v2: "\<not> is_valid_equation [Num 6, Num 4, Op Mul] [4, 6, 6, 6]"
    by (simp add: is_valid_equation_def)
  have "\<exists>nums. parse_numbers (problem (base ?st)) = Inr nums
          \<and> (get_seed ?st \<noteq> None \<or> 4 \<le> length nums)"
    by (simp add: parse_4666)
  then obtain nums held req where r: "expand_request_heu pr ?st config = Inr (nums, held, req)"
    using expand_request_heu_succeeds [of pr ?st config] by blast
  have "parse_numbers (problem (base ?st)) = Inr nums"
    using r by (rule expand_request_heu_cases(1))
  then have nums: "nums = [4, 6, 6, 6]" by (simp add: parse_4666)
  have s: "?solver req = Returns ?sub" by simp
  from expand_heu_keeps_valid_only [OF r s] obtain cs where
    run: "expand_heu pr ?solver ?st config =
            Inr \<lparr>upd_candidates = Some (Items cs), upd_scored_candidates = None,
                 upd_depth = None\<rparr>"
    and cs: "cs = map new_Candidate
                   (filter (\<lambda>eq. is_valid_equation (tokens eq) nums) (equations ?sub))"
    by blast
  from cs nums v1 v2
  have "cs = [new_Candidate \<lparr>tokens = [Num 6, Num 4, Op Mul, Num 6, Op Add, Num 6, Op Sub]\<rparr>]"
    by simp
  with run have "expand_heu pr ?solver ?st config = Inr \<lparr>upd_candidates = Some (Items
                [new_Candidate \<lparr>tokens = [Num 6, Num 4, Op Mul, Num 6, Op Add, Num 6, Op Sub]\<rparr>]),
              upd_scored_candidates = None, upd_depth = None\<rparr>"
    by simp
  then show "expand_heu pr ?solver ?st config = Inr \<lparr>upd_candidates = Some (Items
                [new_Candidate \<lparr>tokens = [Num 6, Num 4, Op Mul, Num 6, Op Add, Num 6, Op Sub]\<rparr>]),
              upd_scored_candidates = None, upd_depth = None\<rparr>
   \<and> is_valid_equation [Num 6, Num 4, Op Mul, Num 6, Op Add, Num 6, Op Sub] [4, 6, 6, 6]
   \<and> \<not> is_valid_equation [Num 6, Num 4, Op Mul] [4, 6, 6, 6]"
    using v1 v2 by (intro conjI)
qed

subsection \<open>How a run reaches an empty frontier\<close>

text \<open>
  In the chain-of-thought variant a solver that returns \<^verbatim>\<open>None\<close> makes \<^verbatim>\<open>expand\<close> raise.
\<close>

lemma expand_cot_none_raises:
  "solver (expand_request_cot pr st config) = ReturnsNone \<Longrightarrow>
     expand_cot pr solver st config = Inl AttributeError"
  by (simp add: expand_cot_def)

text \<open>
  A first round of the heuristic variant in which the only submitted equation does not
  use the four numbers: the expansion returns no candidate, scoring and pruning leave an
  empty frontier at depth 1, the termination check ends the run, and reading the result
  raises.
\<close>

lemma empty_frontier_reachable_heu:
  fixes pr :: printers and config :: RunnableConfig
  defines "solver \<equiv> (\<lambda>req::Request.
             Returns \<lparr>reasoning = ''r'', equations = [\<lparr>tokens = [Num 6, Num 4, Op Mul]\<rparr>]\<rparr>)"
    and "s0 \<equiv> \<lparr>problem = ''4 6 6 6'', candidates = [], scored_candidates = [], depth = 0\<rparr>"
  shows "\<exists>u0 u1 u2.
           expand_heu pr solver \<lparr>base = s0, extras = []\<rparr> config = Inr u0
         \<and> score_node pr (apply_update s0 u0) = Inr u1
         \<and> prune Heuristic (apply_update (apply_update s0 u0) u1) config = Inr u2
         \<and> apply_update (apply_update (apply_update s0 u0) u1) u2
             = \<lparr>problem = ''4 6 6 6'', candidates = [], scored_candidates = [], depth = 1\<rparr>
         \<and> should_terminate_heu
              (apply_update (apply_update (apply_update s0 u0) u1) u2) config = Inr End
         \<and> run_tot_on_problem pr
              (apply_update (apply_update (apply_update s0 u0) u1) u2) config = Inl ValueError"
proof -
  let ?st = "\<lparr>base = s0, extras = []\<rparr>"
  let ?u0 = "\<lparr>upd_candidates = Some (Items []), upd_scored_candidates = None,
              upd_depth = None\<rparr>"
  let ?u1 = "\<lparr>upd_candidates = Some Clear, upd_scored_candidates = Some (Items []),
              upd_depth = None\<rparr>"
  let ?u2 = "\<lparr>upd_candidates = Some (Items []), upd_scored_candidates = Some Clear,
              upd_depth = Some 1\<rparr>"
  have "\<exists>nums. parse_numbers (problem (base ?st)) = Inr nums
          \<and> (get_seed ?st \<noteq> None \<or> 4 \<le> length nums)"
    by (simp add: s0_def parse_4666)
  then obtain nums held req where r: "expand_request_heu pr ?st config = Inr (nums, held, req)"
    using expand_request_heu_succeeds [of pr ?st config] by blast
  have "parse_numbers (problem (base ?st)) = Inr nums"
    using r by (rule expand_request_heu_cases(1))
  then have nums: "nums = [4, 6, 6, 6]" by (simp add: s0_def parse_4666)
  have sub: "solver req
      = Returns \<lparr>reasoning = ''r'', equations = [\<lparr>tokens = [Num 6, Num 4, Op Mul]\<rparr>]\<rparr>"
    by (simp add: solver_def)
  from expand_heu_returns [of pr ?st config nums held req solver, OF r sub] nums
  have e: "expand_heu pr solver ?st config = Inr ?u0"
    by (simp add: is_valid_equation_def)
  have a0: "apply_update s0 ?u0 = s0"
    by (simp add: s0_def apply_update_def update_candidates_def)
  have sc: "score_node pr s0 = Inr ?u1"
    by (simp add: s0_def score_node_def)
  have a1: "apply_update s0 ?u1 = s0"
    by (simp add: s0_def apply_update_def update_candidates_def)
  have p: "prune Heuristic s0 config = Inr ?u2"
    by (simp add: s0_def prune_def sorted_by_score_reverse_def slice_to_def Let_def)
  have a2: "apply_update s0 ?u2
      = \<lparr>problem = ''4 6 6 6'', candidates = [], scored_candidates = [], depth = 1\<rparr>"
    by (simp add: s0_def apply_update_def update_candidates_def)
  have t: "should_terminate_heu
      \<lparr>problem = ''4 6 6 6'', candidates = [], scored_candidates = [], depth = 1\<rparr> config = Inr End"
    by (simp add: should_terminate_heu_def)
  have m: "run_tot_on_problem pr
      \<lparr>problem = ''4 6 6 6'', candidates = [], scored_candidates = [], depth = 1\<rparr> config
      = Inl ValueError"
    by (simp add: run_tot_on_problem_def max_by_score_def)
  have "expand_heu pr solver ?st config = Inr ?u0
         \<and> score_node pr (apply_update s0 ?u0) = Inr ?u1
         \<and> prune Heuristic (apply_update (apply_update s0 ?u0) ?u1) config = Inr ?u2
         \<and> apply_update (apply_update (apply_update s0 ?u0) ?u1) ?u2
             = \<lparr>problem = ''4 6 6 6'', candidates = [], scored_candidates = [], depth = 1\<rparr>
         \<and> should_terminate_heu
              (apply_update (apply_update (apply_update s0 ?u0) ?u1) ?u2) config = Inr End
         \<and> run_tot_on_problem pr
              (apply_update (apply_update (apply_update s0 ?u0) ?u1) ?u2) config = Inl ValueError"
    using e sc p t m by (simp only: a0 a1 a2 simp_thms)
  then show ?thesis by blast
qed

subsection \<open>The heuristic generator\<close>

text \<open>
  Every permutation has the length of the list, so that with at least four numbers the
  reads \<^verbatim>\<open>nums[0]\<close> to \<^verbatim>\<open>nums[3]\<close> of the heuristic generator are in range.
\<close>

lemma permutations_length:
  "p \<in> set (permutations xs) \<Longrightarrow> length p = length xs"
proof (induction xs arbitrary: p rule: permutations.induct)
  case (1 xs)
  show ?case
  proof (cases "xs = []")
    case True
    then show ?thesis using "1.prems" by (subst (asm) permutations.simps) simp
  next
    case False
    then have "p \<in> set (concat (map (\<lambda>i. map ((#) (xs ! i))
                 (permutations (take i xs @ drop (Suc i) xs))) [0..<length xs]))"
      using "1.prems" by (subst (asm) permutations.simps) (simp del: permutations.simps)
    then obtain i q where i: "i < length xs"
      and q: "q \<in> set (permutations (take i xs @ drop (Suc i) xs))"
      and p: "p = xs ! i # q"
      by (auto simp del: permutations.simps)
    have "length q = length (take i xs @ drop (Suc i) xs)"
      using "1.IH" [of i q] False i q by (simp del: permutations.simps)
    then show ?thesis using i p by (auto simp del: permutations.simps)
  qed
qed

end
